theory Spec2Isabelle
  imports Main "HOL-Library.Word"
begin

section \<open>JavaScript values\<close>

text \<open>
  A JavaScript string is a sequence of UTF-16 code units and \<^verbatim>\<open>s.length\<close> counts
  them, so a string is a list of 16-bit words and its length is the list's length.
  String literals of the source are ASCII; \<open>js\<close> embeds them.
\<close>

type_synonym js_string = "16 word list"

definition js :: "string \<Rightarrow> js_string" where
  "js s = map of_char s"

text \<open>The JSON values that the responses of this program carry.\<close>

datatype json = JBool bool | JStr js_string

type_synonym json_object = "(string \<times> json) list"

text \<open>
  \<^verbatim>\<open>a || b\<close> yields \<open>a\<close> when \<open>a\<close> is truthy and \<open>b\<close> otherwise. The empty string is
  falsy; \<^verbatim>\<open>undefined\<close> (here \<open>None\<close>) and the number \<open>0\<close> are falsy.
\<close>

definition or_string :: "js_string \<Rightarrow> js_string \<Rightarrow> js_string" where
  "or_string a b = (if a = [] then b else a)"

definition or_number :: "nat option \<Rightarrow> nat \<Rightarrow> nat" where
  "or_number a b = (case a of None \<Rightarrow> b | Some n \<Rightarrow> if n = 0 then b else n)"

section \<open>BACKEND/error/error.js\<close>

text \<open>
  An error object: the \<^verbatim>\<open>message\<close> and \<^verbatim>\<open>stack\<close> of the native \<^verbatim>\<open>Error\<close>, and the
  \<^verbatim>\<open>StatusCode\<close> property that \<^verbatim>\<open>ErrorHandler\<close> adds (\<open>None\<close> on an error that has
  none). The record is extensible: any further property of an error object (its name,
  a driver's error code, a validation error's per-path details) lives in the
  extension.
\<close>

record js_error =
  message :: js_string
  stack :: js_string
  StatusCode :: "nat option"

text \<open>
  \<^verbatim>\<open>
  class ErrorHandler extends Error{
      constructor(message, StatusCode){
          super(message);
          this.StatusCode = StatusCode;
      }
  }
  \<close>
  The runtime captures the stack trace in \<^verbatim>\<open>super(message)\<close>; it is the third argument
  here.
\<close>

definition ErrorHandler :: "js_string \<Rightarrow> nat option \<Rightarrow> js_string \<Rightarrow> js_error" where
  "ErrorHandler msg code trace = \<lparr>message = msg, stack = trace, StatusCode = code\<rparr>"

record response =
  status :: nat
  body :: json_object

text \<open>
  \<^verbatim>\<open>
  export const errorMiddleware = (err, req, res, next) => {
      err.message = err.message || "Internal Serve Error!";
      err.StatusCode = err.StatusCode || 500;
      return res.status(err.StatusCode).json({
          success: false,
          message: err.message,
      });
  };
  \<close>
  The function assigns to two properties of the error object and sends the response;
  the model returns the updated error object and the response.
\<close>

definition errorMiddleware :: "'a js_error_scheme \<Rightarrow> 'a js_error_scheme \<times> response" where
  "errorMiddleware err =
     (let m = or_string (message err) (js ''Internal Serve Error!'');
          c = or_number (StatusCode err) 500
      in (err\<lparr>message := m, StatusCode := Some c\<rparr>,
          \<lparr>status = c, body = [(''success'', JBool False), (''message'', JStr m)]\<rparr>))"

section \<open>BACKEND/models/reservationSchema.js\<close>

text \<open>
  The schema, the controller and the two frontend components are modelled from their
  excerpts in \<^verbatim>\<open>PROJECT_EXPLANATION.md\<close>; \<^verbatim>\<open>error.js\<close> is modelled from the file itself.
  \<^verbatim>\<open>
  const reservationSchema = new mongoose.Schema({
      firstName: { type: String, required: true, minLength: 3, maxLength: 30 },
      lastName: { type: String, required: true, minLength: 3, maxLength: 30 },
      email: { type: String, required: true, validate: [isEmail, "Provide a valid email"] },
      phone: { type: String, required: true, minLength: 10, maxLength: 10 },
      time: { type: String, required: true },
      date: { type: String, required: true },
  });
  \<close>
\<close>

record reservation =
  firstName :: js_string
  lastName :: js_string
  email :: js_string
  phone :: js_string
  time :: js_string
  date :: js_string

datatype path = FirstName | LastName | Email | Phone | Time | Date

text \<open>
  The validators of a string path: \<^verbatim>\<open>required\<close> rejects the empty string, the length
  validators compare \<^verbatim>\<open>v.length\<close> with the bound.
\<close>

definition required :: "js_string \<Rightarrow> bool" where
  "required v = (v \<noteq> [])"

definition minLength :: "nat \<Rightarrow> js_string \<Rightarrow> bool" where
  "minLength n v = (n \<le> length v)"

definition maxLength :: "nat \<Rightarrow> js_string \<Rightarrow> bool" where
  "maxLength n v = (length v \<le> n)"

text \<open>
  The paths of a document that fail the schema, in the schema's order. \<open>isEmail\<close> is
  the predicate of the \<^verbatim>\<open>validator\<close> package, a parameter here.
\<close>

definition reservationSchema :: "(js_string \<Rightarrow> bool) \<Rightarrow> reservation \<Rightarrow> path list" where
  "reservationSchema isEmail doc =
     (if required (firstName doc) \<and> minLength 3 (firstName doc) \<and> maxLength 30 (firstName doc)
      then [] else [FirstName]) @
     (if required (lastName doc) \<and> minLength 3 (lastName doc) \<and> maxLength 30 (lastName doc)
      then [] else [LastName]) @
     (if required (email doc) \<and> isEmail (email doc) then [] else [Email]) @
     (if required (phone doc) \<and> minLength 10 (phone doc) \<and> maxLength 10 (phone doc)
      then [] else [Phone]) @
     (if required (time doc) then [] else [Time]) @
     (if required (date doc) then [] else [Date])"

text \<open>
  What the handler does not decide itself: the email predicate, the text mongoose
  gives the validation error for the paths that failed, the infrastructure fault (if
  any) that the driver raises on this write, and the stack trace the runtime attaches
  to a new error.
\<close>

record environment =
  isEmail :: "js_string \<Rightarrow> bool"
  validationMessage :: "path list \<Rightarrow> js_string"
  fault :: "js_error option"
  trace :: js_string

text \<open>
  The two ways in which \<^verbatim>\<open>Reservation.create\<close> fails: with a validation error, for the
  paths that failed the schema, or with the error that the storage raised.
\<close>

datatype rejection = Invalid "path list" | Faulted js_error

text \<open>
  \<^verbatim>\<open>Reservation.create(doc)\<close>: the document is validated against the schema first; a
  document that fails is not sent to the storage and the call rejects with the
  validation error. A valid document is written, unless the storage raises a fault,
  with which the call then rejects. The collection keeps every document written, in
  order, duplicates included.
\<close>

definition create ::
  "environment \<Rightarrow> reservation list \<Rightarrow> reservation \<Rightarrow> reservation list \<times> (rejection + reservation)" where
  "create env db doc =
     (case reservationSchema (isEmail env) doc of
        p # ps \<Rightarrow> (db, Inl (Invalid (p # ps)))
      | [] \<Rightarrow> (case fault env of
                 Some e \<Rightarrow> (db, Inl (Faulted e))
               | None \<Rightarrow> (db @ [doc], Inr doc)))"

section \<open>BACKEND/controller/reservation.js\<close>

text \<open>
  \<^verbatim>\<open>
  export const sendReservation = async (req, res, next) => {
      const { firstName, lastName, email, phone, date, time } = req.body;
      if (!firstName || !lastName || !email || !phone || !date || !time) {
          return next(new ErrorHandler("Please fill full reservation form!", 400));
      }
      await Reservation.create({ firstName, lastName, email, phone, date, time });
      res.status(200).json({
          success: true,
          message: "Reservation Sent Successfully!",
      });
  }
  \<close>
  The request body is a JSON object of strings: a map from property names to strings,
  where a property that is absent reads as \<^verbatim>\<open>undefined\<close> (\<open>None\<close>). A string is falsy
  exactly when it is empty.

  The handler ends in one of two ways: it has sent a response, or it has passed an
  error to \<^verbatim>\<open>next\<close>.

  The excerpt shows the presence check and the path on which \<^verbatim>\<open>Reservation.create\<close>
  succeeds. It does not show what the controller does when \<^verbatim>\<open>Reservation.create\<close>
  fails: the list of steps that follows the excerpt has a step for the handling of
  validation errors and database errors that the excerpt leaves out, and
  \<^verbatim>\<open>controller/reservation.js\<close> itself is not among the sources. That step is
  \<open>onCreateError\<close> below.
\<close>

type_synonym request_body = "string \<rightharpoonup> js_string"

datatype outcome = Responded response | Next js_error

definition incomplete :: "environment \<Rightarrow> outcome" where
  "incomplete env =
     Next (ErrorHandler (js ''Please fill full reservation form!'') (Some 400) (trace env))"

text \<open>
  Modelled from the spec: the controller's handling of a failure of
  \<^verbatim>\<open>Reservation.create\<close>, the part of \<^verbatim>\<open>controller/reservation.js\<close> that the excerpt does
  not show. A schema violation fails with a BadRequest-class error surfaced from the
  persistence layer, of the same externally visible shape as the presence check: an
  \<open>ErrorHandler\<close> error with status 400 that carries the text of the validation error,
  passed to \<^verbatim>\<open>next\<close>. Any other failure of the persistence layer is caught and handed to
  the error responder as it is.
\<close>

definition onCreateError :: "environment \<Rightarrow> rejection \<Rightarrow> outcome" where
  "onCreateError env r =
     (case r of
        Invalid ps \<Rightarrow> Next (ErrorHandler (validationMessage env ps) (Some 400) (trace env))
      | Faulted err \<Rightarrow> Next err)"

definition sendReservation ::
  "environment \<Rightarrow> reservation list \<Rightarrow> request_body \<Rightarrow> reservation list \<times> outcome" where
  "sendReservation env db b =
     (case (b ''firstName'', b ''lastName'', b ''email'', b ''phone'', b ''date'', b ''time'') of
        (Some f, Some l, Some e, Some p, Some d, Some t) \<Rightarrow>
          if f = [] \<or> l = [] \<or> e = [] \<or> p = [] \<or> d = [] \<or> t = [] then (db, incomplete env)
          else (case create env db
                       \<lparr>firstName = f, lastName = l, email = e, phone = p, time = t, date = d\<rparr> of
                  (db', Inl r) \<Rightarrow> (db', onCreateError env r)
                | (db', Inr _) \<Rightarrow>
                    (db', Responded
                       \<lparr>status = 200,
                        body = [(''success'', JBool True),
                                (''message'', JStr (js ''Reservation Sent Successfully!''))]\<rparr>))
      | _ \<Rightarrow> (db, incomplete env))"

section \<open>BACKEND/app.js\<close>

text \<open>
  Modelled from the spec: the wiring of \<^verbatim>\<open>app.js\<close>, of which the repository's
  documentation gives the imports and a description only. The route
  \<^verbatim>\<open>POST /api/v1/reservation/send\<close> is served by \<open>sendReservation\<close> and
  \<open>errorMiddleware\<close> is mounted last as the global error handler, which receives the
  error that the handler passed to \<^verbatim>\<open>next\<close>.
\<close>

definition app ::
  "environment \<Rightarrow> reservation list \<Rightarrow> request_body \<Rightarrow> reservation list \<times> response" where
  "app env db b =
     (case sendReservation env db b of
        (db', Responded r) \<Rightarrow> (db', r)
      | (db', Next err) \<Rightarrow> (db', snd (errorMiddleware err)))"

section \<open>frontend/src/components/Reservation.jsx\<close>

text \<open>
  \<^verbatim>\<open>
  const [firstName, setFirstName] = useState("");
  const [lastName, setLastName] = useState("");
  const [email, setEmail] = useState("");
  const [date, setDate] = useState("");
  const [time, setTime] = useState("");
  const [phone, setPhone] = useState("");

  const handleReservation = async (e) => {
      e.preventDefault();
      try {
          const { data } = await axios.post(
              "http://localhost:4000/api/v1/reservation/send",
              { firstName, lastName, email, phone, date, time },
              {
                  headers: { "Content-Type": "application/json" },
                  withCredentials: true,
              }
          );
          toast.success(data.message);
          setFirstName(""); // ... reset all fields
          navigate("/success");
      } catch (error) {
          toast.error(error.response?.data?.message || error.message);
      }
  };
  \<close>
  The state of the form client: the six field states, the notifications shown so far
  and the current route. The excerpt writes out one of the six resets; its comment
  stands for the other five.
\<close>

datatype toast = Success_toast "json option" | Error_toast json

record form =
  inputs :: reservation
  toasts :: "toast list"
  page :: string

text \<open>
  The awaited \<^verbatim>\<open>axios.post\<close> either fulfils with the response (its \<^verbatim>\<open>data\<close> is the parsed
  body) or rejects with an error that has a \<^verbatim>\<open>message\<close> and, when the server answered,
  the \<^verbatim>\<open>response\<close> with its \<^verbatim>\<open>data\<close>. It fulfils for a status from 200 to 299 and rejects
  for any other status and when no response arrived; \<open>emsg\<close> is the text axios gives
  its error.
\<close>

datatype axios_result = Fulfilled json_object | Failed "json_object option" js_string

definition axios_post :: "response option \<Rightarrow> js_string \<Rightarrow> axios_result" where
  "axios_post r emsg =
     (case r of
        None \<Rightarrow> Failed None emsg
      | Some r \<Rightarrow> if 200 \<le> status r \<and> status r < 300 then Fulfilled (body r)
                  else Failed (Some (body r)) emsg)"

text \<open>\<^verbatim>\<open>a || b\<close> on a property read from a JSON object.\<close>

definition or_json :: "json option \<Rightarrow> json \<Rightarrow> json" where
  "or_json a b =
     (case a of
        None \<Rightarrow> b
      | Some (JBool t) \<Rightarrow> if t then JBool t else b
      | Some (JStr s) \<Rightarrow> if s = [] then b else JStr s)"

definition cleared :: reservation where
  "cleared = \<lparr>firstName = [], lastName = [], email = [], phone = [], time = [], date = []\<rparr>"

definition handleReservation :: "form \<Rightarrow> axios_result \<Rightarrow> form" where
  "handleReservation st res =
     (case res of
        Fulfilled data \<Rightarrow>
          st\<lparr>toasts := toasts st @ [Success_toast (map_of data ''message'')],
             inputs := cleared,
             page := ''/success''\<rparr>
      | Failed rdata emsg \<Rightarrow>
          st\<lparr>toasts := toasts st @
                [Error_toast
                   (or_json (case rdata of None \<Rightarrow> None | Some d \<Rightarrow> map_of d ''message'')
                      (JStr emsg))]\<rparr>)"

text \<open>The JSON object that the form posts: all six properties, each the field's state.\<close>

definition posted :: "reservation \<Rightarrow> request_body" where
  "posted r =
     [''firstName'' \<mapsto> firstName r, ''lastName'' \<mapsto> lastName r, ''email'' \<mapsto> email r,
      ''phone'' \<mapsto> phone r, ''date'' \<mapsto> date r, ''time'' \<mapsto> time r]"

section \<open>frontend/src/Pages/Success.jsx\<close>

text \<open>
  \<^verbatim>\<open>
  const [countdown, setCountdown] = useState(10);

  useEffect(() => {
      const timeoutId = setInterval(() => {
          setCountdown((preCount) => {
              if (preCount === 1) {
                  clearInterval(timeoutId);
                  navigate("/");  // Redirect to home
              }
              return preCount - 1;
          });
      }, 1000);
      return () => clearInterval(timeoutId);
  }, [navigate]);
  \<close>
  The state of the confirmation view: the counter, the identifiers of the intervals
  that are active in the browser, the identifier that the effect's closure holds, the
  current route and the number of navigations made so far. The model is that of a
  production build, in which React runs an effect once per mount and the function
  passed to a state setter once per update.
\<close>

record success_view =
  countdown :: int
  intervals :: "nat list"
  timeoutId :: nat
  path :: string
  navigations :: nat

definition clearInterval :: "nat \<Rightarrow> success_view \<Rightarrow> success_view" where
  "clearInterval i s = s\<lparr>intervals := removeAll i (intervals s)\<rparr>"

definition navigate :: "string \<Rightarrow> success_view \<Rightarrow> success_view" where
  "navigate target s = s\<lparr>path := target, navigations := Suc (navigations s)\<rparr>"

text \<open>
  Mounting the view: \<^verbatim>\<open>useState(10)\<close>, then the effect, in which \<^verbatim>\<open>setInterval\<close> returns
  the identifier \<open>i\<close> of the new interval.
\<close>

definition mount :: "nat \<Rightarrow> success_view" where
  "mount i = \<lparr>countdown = 10, intervals = [i], timeoutId = i, path = ''/success'', navigations = 0\<rparr>"

text \<open>The function passed to \<^verbatim>\<open>setCountdown\<close>, with its two effects.\<close>

definition updater :: "success_view \<Rightarrow> success_view" where
  "updater s =
     (let preCount = countdown s;
          s' = (if preCount = 1 then navigate ''/'' (clearInterval (timeoutId s) s) else s)
      in s'\<lparr>countdown := preCount - 1\<rparr>)"

text \<open>
  One second passes: the browser runs the callback of the interval if the interval is
  still active, and does nothing for an interval that was cleared.
\<close>

definition tick :: "success_view \<Rightarrow> success_view" where
  "tick s = (if timeoutId s \<in> set (intervals s) then updater s else s)"

text \<open>Unmounting runs the effect's cleanup, \<^verbatim>\<open>() => clearInterval(timeoutId)\<close>.\<close>

definition unmount :: "success_view \<Rightarrow> success_view" where
  "unmount s = clearInterval (timeoutId s) s"

text \<open>
  Modelled from the spec: the explicit navigation control of the confirmation view,
  whose markup the repository's documentation does not give. Activating it navigates
  to the home view; the route no longer matches \<^verbatim>\<open>/success\<close>, so the view is unmounted.
\<close>

definition clickHome :: "success_view \<Rightarrow> success_view" where
  "clickHome s = unmount (navigate ''/'' s)"

section \<open>Sample data\<close>

text \<open>
  The well-formed submission of the specification, an environment for it and an
  infrastructure fault. The stand-in for \<^verbatim>\<open>isEmail\<close> accepts the strings that contain
  \<^verbatim>\<open>@\<close>; the only use made of it is that it accepts the sample address, as the
  \<^verbatim>\<open>validator\<close> package does.
\<close>

definition john :: reservation where
  "john = \<lparr>firstName = js ''John'', lastName = js ''Smith'', email = js ''john@example.com'',
            phone = js ''1234567890'', time = js ''19:00'', date = js ''2025-01-01''\<rparr>"

definition sample_env :: "js_error option \<Rightarrow> environment" where
  "sample_env flt =
     \<lparr>isEmail = (\<lambda>s. of_char CHR ''@'' \<in> set s),
      validationMessage = (\<lambda>ps. js ''Reservation validation failed''),
      fault = flt,
      trace = js ''Error at sendReservation''\<rparr>"

definition refused :: js_error where
  "refused = \<lparr>message = js ''connect ECONNREFUSED 127.0.0.1:27017'',
               stack = js ''MongoNetworkError at connect'',
               StatusCode = None\<rparr>"

section \<open>Results for the error responder\<close>

lemma js_Nil_iff: "js s = [] \<longleftrightarrow> s = []"
  by (simp add: js_def)

lemma or_string_not_Nil: "b \<noteq> [] \<Longrightarrow> or_string a b \<noteq> []"
  by (simp add: or_string_def)

lemma errorMiddleware_response:
  "snd (errorMiddleware err) =
     \<lparr>status = or_number (StatusCode err) 500,
      body = [(''success'', JBool False),
              (''message'', JStr (or_string (message err) (js ''Internal Serve Error!'')))]\<rparr>"
  by (simp add: errorMiddleware_def Let_def)

text \<open>
  Claim C10, as stated, fails for an error whose \<^verbatim>\<open>StatusCode\<close> is set to \<open>0\<close>: the
  number \<open>0\<close> is falsy, so \<^verbatim>\<open>err.StatusCode || 500\<close> is \<open>500\<close>.
\<close>

theorem C10_status_of_zero_counterexample:
  "StatusCode (ErrorHandler (js ''Boom'') (Some 0) []) = Some 0 \<and>
   status (snd (errorMiddleware (ErrorHandler (js ''Boom'') (Some 0) []))) = 500"
  by (simp add: ErrorHandler_def errorMiddleware_response or_number_def)

text \<open>
  Claim C10, amended. For every error object the status of the answer is the error's
  \<^verbatim>\<open>StatusCode\<close> when that is set and not zero, and 500 otherwise; the body is
  \<^verbatim>\<open>{ success: false, message }\<close>, where the message is the error's own when that is not
  empty and the default text \<^verbatim>\<open>Internal Serve Error!\<close> otherwise; the message of the
  answer is never empty.
\<close>

theorem C10_error_response:
  "status (snd (errorMiddleware err)) =
     (case StatusCode err of None \<Rightarrow> 500 | Some c \<Rightarrow> if c = 0 then 500 else c)
   \<and> body (snd (errorMiddleware err)) =
       [(''success'', JBool False),
        (''message'', JStr (if message err = [] then js ''Internal Serve Error!'' else message err))]
   \<and> (if message err = [] then js ''Internal Serve Error!'' else message err) \<noteq> []"
  by (simp add: errorMiddleware_response or_number_def or_string_def js_Nil_iff)

theorem C10_error_response_witness:
  "status (snd (errorMiddleware (ErrorHandler (js ''Please fill full reservation form!'') (Some 400) []))) = 400
   \<and> body (snd (errorMiddleware (ErrorHandler [] None []))) =
       [(''success'', JBool False), (''message'', JStr (js ''Internal Serve Error!''))]
   \<and> status (snd (errorMiddleware (ErrorHandler [] None []))) = 500"
  using C10_error_response [of "ErrorHandler (js ''Please fill full reservation form!'') (Some 400) []"]
    C10_error_response [of "ErrorHandler [] None []"]
  by (simp add: ErrorHandler_def)

section \<open>Results for the intake service\<close>

lemma sendReservation_incomplete:
  assumes "k \<in> set [''firstName'', ''lastName'', ''email'', ''phone'', ''date'', ''time'']"
      and "b k = None \<or> b k = Some []"
  shows "sendReservation env db b = (db, incomplete env)"
  using assms by (auto simp: sendReservation_def split: option.splits)

lemma sendReservation_present:
  assumes "b ''firstName'' = Some f" "b ''lastName'' = Some l" "b ''email'' = Some e"
    "b ''phone'' = Some p" "b ''date'' = Some d" "b ''time'' = Some t"
    "f \<noteq> []" "l \<noteq> []" "e \<noteq> []" "p \<noteq> []" "d \<noteq> []" "t \<noteq> []"
  shows "sendReservation env db b =
     (case create env db \<lparr>firstName = f, lastName = l, email = e, phone = p, time = t, date = d\<rparr> of
                  (db', Inl r) \<Rightarrow> (db', onCreateError env r)
                | (db', Inr _) \<Rightarrow>
                    (db', Responded
                       \<lparr>status = 200,
                        body = [(''success'', JBool True),
                                (''message'', JStr (js ''Reservation Sent Successfully!''))]\<rparr>))"
  using assms by (simp add: sendReservation_def)

lemma sendReservation_cases:
  "sendReservation env db b = (db, incomplete env) \<or>
   (\<exists>f l e p d t. b ''firstName'' = Some f \<and> b ''lastName'' = Some l \<and> b ''email'' = Some e \<and>
      b ''phone'' = Some p \<and> b ''date'' = Some d \<and> b ''time'' = Some t \<and>
      f \<noteq> [] \<and> l \<noteq> [] \<and> e \<noteq> [] \<and> p \<noteq> [] \<and> d \<noteq> [] \<and> t \<noteq> [] \<and>
      sendReservation env db b =
        (case create env db \<lparr>firstName = f, lastName = l, email = e, phone = p, time = t, date = d\<rparr> of
                  (db', Inl r) \<Rightarrow> (db', onCreateError env r)
                | (db', Inr _) \<Rightarrow>
                    (db', Responded
                       \<lparr>status = 200,
                        body = [(''success'', JBool True),
                                (''message'', JStr (js ''Reservation Sent Successfully!''))]\<rparr>)))"
  by (auto simp: sendReservation_def split: option.splits)

lemma create_valid:
  assumes "reservationSchema (isEmail env) doc = []" "fault env = None"
  shows "create env db doc = (db @ [doc], Inr doc)"
  using assms by (simp add: create_def)

lemma create_invalid:
  assumes "reservationSchema (isEmail env) doc \<noteq> []"
  shows "create env db doc = (db, Inl (Invalid (reservationSchema (isEmail env) doc)))"
  using assms by (simp add: create_def split: list.splits)

lemma create_fault:
  assumes "reservationSchema (isEmail env) doc = []" "fault env = Some e"
  shows "create env db doc = (db, Inl (Faulted e))"
  using assms by (simp add: create_def)

lemma create_Inr:
  assumes "create env db doc = (db', Inr x)"
  shows "db' = db @ [doc] \<and> reservationSchema (isEmail env) doc = []"
  using assms by (auto simp: create_def split: list.splits option.splits)

lemma schema_ok_iff:
  "reservationSchema ie doc = [] \<longleftrightarrow>
     firstName doc \<noteq> [] \<and> 3 \<le> length (firstName doc) \<and> length (firstName doc) \<le> 30 \<and>
     lastName doc \<noteq> [] \<and> 3 \<le> length (lastName doc) \<and> length (lastName doc) \<le> 30 \<and>
     email doc \<noteq> [] \<and> ie (email doc) \<and>
     phone doc \<noteq> [] \<and> length (phone doc) = 10 \<and>
     time doc \<noteq> [] \<and> date doc \<noteq> []"
  by (auto simp: reservationSchema_def required_def minLength_def maxLength_def)

text \<open>
  Claim C1. A submission in which one of the six fields is absent or empty is answered
  with status 400 and the fixed message of the controller, by way of an
  \<open>ErrorHandler\<close> error passed to \<^verbatim>\<open>next\<close>; the collection of reservations is left as it
  was.
\<close>

theorem C1_incomplete_submission_rejected:
  assumes "k \<in> set [''firstName'', ''lastName'', ''email'', ''phone'', ''date'', ''time'']"
      and "b k = None \<or> b k = Some []"
  shows "sendReservation env db b =
           (db, Next (ErrorHandler (js ''Please fill full reservation form!'') (Some 400) (trace env)))
       \<and> app env db b =
           (db, \<lparr>status = 400,
                 body = [(''success'', JBool False),
                         (''message'', JStr (js ''Please fill full reservation form!''))]\<rparr>)"
proof -
  have s: "sendReservation env db b = (db, incomplete env)"
    using assms by (rule sendReservation_incomplete)
  have "js ''Please fill full reservation form!'' \<noteq> []"
    by (simp add: js_Nil_iff)
  then show ?thesis
    by (simp add: s app_def incomplete_def ErrorHandler_def errorMiddleware_response
        or_string_def or_number_def)
qed

theorem C1_incomplete_submission_rejected_witness:
  "((posted john)(''time'' := None)) ''time'' = None \<and>
   app (sample_env None) [john] ((posted john)(''time'' := None)) =
     ([john], \<lparr>status = 400,
               body = [(''success'', JBool False),
                       (''message'', JStr (js ''Please fill full reservation form!''))]\<rparr>)"
  using C1_incomplete_submission_rejected
    [of "''time''" "(posted john)(''time'' := None)" "sample_env None" "[john]"]
  by simp

text \<open>
  Claim C2. A submission with all six fields present, first and last name of length 3
  to 30, an email that \<^verbatim>\<open>isEmail\<close> accepts and a phone of length 10 is answered, by a
  storage that takes the write, with status 200 and the body
  \<^verbatim>\<open>{ success: true, message }\<close>, and exactly one document, holding the submitted
  values, is appended to the collection.
\<close>

theorem C2_well_formed_submission_persisted:
  assumes "b ''firstName'' = Some f" "b ''lastName'' = Some l" "b ''email'' = Some e"
      and "b ''phone'' = Some p" "b ''date'' = Some d" "b ''time'' = Some t"
      and "3 \<le> length f" "length f \<le> 30" "3 \<le> length l" "length l \<le> 30"
      and "e \<noteq> []" "isEmail env e" "length p = 10" "d \<noteq> []" "t \<noteq> []"
      and "fault env = None"
  shows "app env db b =
           (db @ [\<lparr>firstName = f, lastName = l, email = e, phone = p, time = t, date = d\<rparr>],
            \<lparr>status = 200,
             body = [(''success'', JBool True),
                     (''message'', JStr (js ''Reservation Sent Successfully!''))]\<rparr>)"
proof -
  let ?doc = "\<lparr>firstName = f, lastName = l, email = e, phone = p, time = t, date = d\<rparr>"
  have ne: "f \<noteq> []" "l \<noteq> []" "p \<noteq> []"
    using assms by auto
  have "reservationSchema (isEmail env) ?doc = []"
    using assms ne by (simp add: schema_ok_iff)
  then have "create env db ?doc = (db @ [?doc], Inr ?doc)"
    using \<open>fault env = None\<close> by (rule create_valid)
  then show ?thesis
    using assms(1-6) ne \<open>e \<noteq> []\<close> \<open>d \<noteq> []\<close> \<open>t \<noteq> []\<close>
    by (simp add: app_def sendReservation_present)
qed

theorem C2_well_formed_submission_persisted_witness:
  "isEmail (sample_env None) (email john) \<and> length (phone john) = 10 \<and>
   app (sample_env None) [] (posted john) =
     ([john], \<lparr>status = 200,
               body = [(''success'', JBool True),
                       (''message'', JStr (js ''Reservation Sent Successfully!''))]\<rparr>)"
  using C2_well_formed_submission_persisted
    [of "posted john" "firstName john" "lastName john" "email john" "phone john" "date john"
        "time john" "sample_env None" "[]"]
  by (simp add: posted_def john_def sample_env_def js_def)

lemma default_message_not_Nil: "js ''Internal Serve Error!'' \<noteq> []"
  by (simp add: js_Nil_iff)

lemma app_failure:
  assumes "snd (sendReservation env db b) = Next err"
  shows "snd (app env db b) = snd (errorMiddleware err)"
  using assms by (auto simp: app_def split: prod.splits outcome.splits)

lemma onCreateError_answer:
  "snd (errorMiddleware (ErrorHandler msg (Some 400) tr)) =
     \<lparr>status = 400,
      body = [(''success'', JBool False),
              (''message'', JStr (or_string msg (js ''Internal Serve Error!'')))]\<rparr>"
  by (simp add: errorMiddleware_response ErrorHandler_def or_number_def)

lemma app_schema_violation:
  assumes "b ''firstName'' = Some f" "b ''lastName'' = Some l" "b ''email'' = Some e"
    "b ''phone'' = Some p" "b ''date'' = Some d" "b ''time'' = Some t"
    "f \<noteq> []" "l \<noteq> []" "e \<noteq> []" "p \<noteq> []" "d \<noteq> []" "t \<noteq> []"
    "reservationSchema (isEmail env)
       \<lparr>firstName = f, lastName = l, email = e, phone = p, time = t, date = d\<rparr> \<noteq> []"
  shows "app env db b =
     (db, \<lparr>status = 400,
           body = [(''success'', JBool False),
                   (''message'',
                    JStr (or_string
                      (validationMessage env
                         (reservationSchema (isEmail env)
                            \<lparr>firstName = f, lastName = l, email = e, phone = p, time = t,
                             date = d\<rparr>))
                      (js ''Internal Serve Error!'')))]\<rparr>)"
proof -
  let ?doc = "\<lparr>firstName = f, lastName = l, email = e, phone = p, time = t, date = d\<rparr>"
  have "create env db ?doc = (db, Inl (Invalid (reservationSchema (isEmail env) ?doc)))"
    using assms(13) by (rule create_invalid)
  then have "sendReservation env db b =
      (db, onCreateError env (Invalid (reservationSchema (isEmail env) ?doc)))"
    using assms(1-12) by (simp add: sendReservation_present)
  then show ?thesis
    by (simp add: app_def onCreateError_def onCreateError_answer)
qed

lemma sendReservation_posted:
  assumes "firstName r \<noteq> []" "lastName r \<noteq> []" "email r \<noteq> []"
    "phone r \<noteq> []" "date r \<noteq> []" "time r \<noteq> []"
  shows "sendReservation env db (posted r) =
     (case create env db r of
        (db', Inl r) \<Rightarrow> (db', onCreateError env r)
      | (db', Inr _) \<Rightarrow>
          (db', Responded
             \<lparr>status = 200,
              body = [(''success'', JBool True),
                      (''message'', JStr (js ''Reservation Sent Successfully!''))]\<rparr>))"
proof -
  have "sendReservation env db (posted r) =
     (case create env db \<lparr>firstName = firstName r, lastName = lastName r, email = email r,
                           phone = phone r, time = time r, date = date r\<rparr> of
        (db', Inl r) \<Rightarrow> (db', onCreateError env r)
      | (db', Inr _) \<Rightarrow>
          (db', Responded
             \<lparr>status = 200,
              body = [(''success'', JBool True),
                      (''message'', JStr (js ''Reservation Sent Successfully!''))]\<rparr>))"
    using assms by (intro sendReservation_present) (simp_all add: posted_def)
  moreover have "\<lparr>firstName = firstName r, lastName = lastName r, email = email r,
                   phone = phone r, time = time r, date = date r\<rparr> = r"
    by (cases r) simp
  ultimately show ?thesis by simp
qed

lemma john_present:
  "firstName john \<noteq> []" "lastName john \<noteq> []" "email john \<noteq> []"
  "phone john \<noteq> []" "date john \<noteq> []" "time john \<noteq> []"
  by (simp_all add: john_def js_def)

lemma schema_john: "reservationSchema (isEmail (sample_env flt)) john = []"
  by (simp add: schema_ok_iff john_def sample_env_def js_def)

lemma sendReservation_john_fault:
  "sendReservation (sample_env (Some e)) db (posted john) = (db, Next e)"
proof -
  have "create (sample_env (Some e)) db john = (db, Inl (Faulted e))"
    by (rule create_fault) (simp_all add: schema_john, simp add: sample_env_def)
  then show ?thesis
    by (simp add: sendReservation_posted john_present onCreateError_def)
qed

lemma app_john: "app (sample_env None) db (posted john) =
     (db @ [john], \<lparr>status = 200,
               body = [(''success'', JBool True),
                       (''message'', JStr (js ''Reservation Sent Successfully!''))]\<rparr>)"
proof -
  have "create (sample_env None) db john = (db @ [john], Inr john)"
    by (rule create_valid) (simp_all add: schema_john, simp add: sample_env_def)
  then show ?thesis
    by (simp add: app_def sendReservation_posted john_present)
qed

lemma app_success:
  assumes "app env db b = (db', r)" "map_of (body r) ''success'' = Some (JBool True)"
  shows "\<exists>f l e p d t. b ''firstName'' = Some f \<and> b ''lastName'' = Some l \<and> b ''email'' = Some e \<and>
      b ''phone'' = Some p \<and> b ''date'' = Some d \<and> b ''time'' = Some t \<and>
      db' = db @ [\<lparr>firstName = f, lastName = l, email = e, phone = p, time = t, date = d\<rparr>]"
proof -
  from sendReservation_cases [of env db b] show ?thesis
  proof
    assume "sendReservation env db b = (db, incomplete env)"
    with assms show ?thesis
      by (auto simp: app_def incomplete_def errorMiddleware_response)
  next
    assume "\<exists>f l e p d t. b ''firstName'' = Some f \<and> b ''lastName'' = Some l \<and> b ''email'' = Some e \<and>
      b ''phone'' = Some p \<and> b ''date'' = Some d \<and> b ''time'' = Some t \<and>
      f \<noteq> [] \<and> l \<noteq> [] \<and> e \<noteq> [] \<and> p \<noteq> [] \<and> d \<noteq> [] \<and> t \<noteq> [] \<and>
      sendReservation env db b =
        (case create env db \<lparr>firstName = f, lastName = l, email = e, phone = p, time = t, date = d\<rparr> of
                  (db', Inl r) \<Rightarrow> (db', onCreateError env r)
                | (db', Inr _) \<Rightarrow>
                    (db', Responded
                       \<lparr>status = 200,
                        body = [(''success'', JBool True),
                                (''message'', JStr (js ''Reservation Sent Successfully!''))]\<rparr>))"
    then obtain f l e p d t where
      b: "b ''firstName'' = Some f" "b ''lastName'' = Some l" "b ''email'' = Some e"
         "b ''phone'' = Some p" "b ''date'' = Some d" "b ''time'' = Some t"
      and s: "sendReservation env db b =
        (case create env db \<lparr>firstName = f, lastName = l, email = e, phone = p, time = t, date = d\<rparr> of
                  (db', Inl r) \<Rightarrow> (db', onCreateError env r)
                | (db', Inr _) \<Rightarrow>
                    (db', Responded
                       \<lparr>status = 200,
                        body = [(''success'', JBool True),
                                (''message'', JStr (js ''Reservation Sent Successfully!''))]\<rparr>))"
      by blast
    let ?doc = "\<lparr>firstName = f, lastName = l, email = e, phone = p, time = t, date = d\<rparr>"
    obtain db1 res where c: "create env db ?doc = (db1, res)"
      by (cases "create env db ?doc")
    show ?thesis
    proof (cases res)
      case (Inl err)
      with assms s c show ?thesis
        by (auto simp: app_def onCreateError_def errorMiddleware_response split: rejection.splits)
    next
      case (Inr x)
      with c have "db1 = db @ [?doc]"
        by (simp add: create_Inr)
      moreover from assms s c Inr have "db' = db1"
        by (simp add: app_def)
      ultimately show ?thesis
        using b by simp
    qed
  qed
qed

text \<open>
  Claim C3. A submission in which all six fields are present and one of them violates a
  constraint of the schema (first or last name shorter than 3 or longer than 30, an
  email that \<^verbatim>\<open>isEmail\<close> does not accept, a phone whose length is not 10) is answered
  with status 400 and a body \<^verbatim>\<open>{ success: false, message }\<close> with a non-empty message;
  the status, the properties of the body and the value of \<^verbatim>\<open>success\<close> are those of the
  answer to a submission that fails the presence check, and the collection of
  reservations is left as it was. The schema is that of the excerpt; what the
  controller does with the validation error is \<open>onCreateError\<close>.
\<close>

theorem C3_schema_violation_rejected:
  assumes "b ''firstName'' = Some f" "b ''lastName'' = Some l" "b ''email'' = Some e"
      and "b ''phone'' = Some p" "b ''date'' = Some d" "b ''time'' = Some t"
      and "f \<noteq> []" "l \<noteq> []" "e \<noteq> []" "p \<noteq> []" "d \<noteq> []" "t \<noteq> []"
      and "length f < 3 \<or> 30 < length f \<or> length l < 3 \<or> 30 < length l \<or>
           \<not> isEmail env e \<or> length p \<noteq> 10"
  shows "(\<exists>m. m \<noteq> [] \<and>
            app env db b =
              (db, \<lparr>status = 400,
                    body = [(''success'', JBool False), (''message'', JStr m)]\<rparr>))
       \<and> status (snd (app env db b)) = status (snd (app env db Map.empty))
       \<and> map fst (body (snd (app env db b))) = map fst (body (snd (app env db Map.empty)))
       \<and> map_of (body (snd (app env db b))) ''success'' =
           map_of (body (snd (app env db Map.empty))) ''success''"
proof -
  let ?doc = "\<lparr>firstName = f, lastName = l, email = e, phone = p, time = t, date = d\<rparr>"
  let ?m = "or_string (validationMessage env (reservationSchema (isEmail env) ?doc))
              (js ''Internal Serve Error!'')"
  have "reservationSchema (isEmail env) ?doc \<noteq> []"
    using assms(13) by (auto simp: schema_ok_iff)
  with assms(1-12) have a: "app env db b =
      (db, \<lparr>status = 400, body = [(''success'', JBool False), (''message'', JStr ?m)]\<rparr>)"
    by (rule app_schema_violation)
  have m: "?m \<noteq> []"
    by (rule or_string_not_Nil) (rule default_message_not_Nil)
  have "sendReservation env db Map.empty = (db, incomplete env)"
    by (rule sendReservation_incomplete [of "''firstName''"]) simp_all
  then have e: "snd (app env db Map.empty) =
      \<lparr>status = 400,
       body = [(''success'', JBool False),
               (''message'',
                JStr (or_string (js ''Please fill full reservation form!'')
                        (js ''Internal Serve Error!'')))]\<rparr>"
    by (simp add: app_def incomplete_def onCreateError_answer)
  from a m have "\<exists>m. m \<noteq> [] \<and>
      app env db b =
        (db, \<lparr>status = 400, body = [(''success'', JBool False), (''message'', JStr m)]\<rparr>)"
    by blast
  then show ?thesis
    by (simp add: a e)
qed

theorem C3_schema_violation_rejected_witness:
  "length (phone (john\<lparr>phone := js ''123''\<rparr>)) \<noteq> 10 \<and>
   (\<exists>m. m \<noteq> [] \<and>
      app (sample_env None) [john] (posted (john\<lparr>phone := js ''123''\<rparr>)) =
        ([john], \<lparr>status = 400,
                  body = [(''success'', JBool False), (''message'', JStr m)]\<rparr>))"
proof -
  let ?r = "john\<lparr>phone := js ''123''\<rparr>"
  have "(\<exists>m. m \<noteq> [] \<and>
      app (sample_env None) [john] (posted ?r) =
        ([john], \<lparr>status = 400,
                  body = [(''success'', JBool False), (''message'', JStr m)]\<rparr>))
       \<and> status (snd (app (sample_env None) [john] (posted ?r))) =
           status (snd (app (sample_env None) [john] Map.empty))
       \<and> map fst (body (snd (app (sample_env None) [john] (posted ?r)))) =
           map fst (body (snd (app (sample_env None) [john] Map.empty)))
       \<and> map_of (body (snd (app (sample_env None) [john] (posted ?r)))) ''success'' =
           map_of (body (snd (app (sample_env None) [john] Map.empty))) ''success''"
    by (rule C3_schema_violation_rejected
          [of "posted ?r" "firstName ?r" "lastName ?r" "email ?r" "phone ?r" "date ?r" "time ?r"
              "sample_env None" "[john]"])
       (simp_all add: posted_def john_def js_def)
  moreover have "length (phone ?r) \<noteq> 10"
    by (simp add: js_def)
  ultimately show ?thesis
    by blast
qed

lemma sendReservation_outcome:
  "snd (sendReservation env db b) =
     Responded \<lparr>status = 200,
                body = [(''success'', JBool True),
                        (''message'', JStr (js ''Reservation Sent Successfully!''))]\<rparr>
   \<or> snd (sendReservation env db b) = incomplete env
   \<or> (\<exists>ps. ps \<noteq> [] \<and>
         snd (sendReservation env db b) =
           Next (ErrorHandler (validationMessage env ps) (Some 400) (trace env)))
   \<or> (\<exists>e. fault env = Some e \<and> snd (sendReservation env db b) = Next e)"
proof -
  from sendReservation_cases [of env db b] show ?thesis
  proof
    assume "sendReservation env db b = (db, incomplete env)"
    then show ?thesis by simp
  next
    assume "\<exists>f l e p d t. b ''firstName'' = Some f \<and> b ''lastName'' = Some l \<and> b ''email'' = Some e \<and>
      b ''phone'' = Some p \<and> b ''date'' = Some d \<and> b ''time'' = Some t \<and>
      f \<noteq> [] \<and> l \<noteq> [] \<and> e \<noteq> [] \<and> p \<noteq> [] \<and> d \<noteq> [] \<and> t \<noteq> [] \<and>
      sendReservation env db b =
        (case create env db \<lparr>firstName = f, lastName = l, email = e, phone = p, time = t, date = d\<rparr> of
                  (db', Inl r) \<Rightarrow> (db', onCreateError env r)
                | (db', Inr _) \<Rightarrow>
                    (db', Responded
                       \<lparr>status = 200,
                        body = [(''success'', JBool True),
                                (''message'', JStr (js ''Reservation Sent Successfully!''))]\<rparr>))"
    then obtain doc where s: "sendReservation env db b =
        (case create env db doc of
                  (db', Inl r) \<Rightarrow> (db', onCreateError env r)
                | (db', Inr _) \<Rightarrow>
                    (db', Responded
                       \<lparr>status = 200,
                        body = [(''success'', JBool True),
                                (''message'', JStr (js ''Reservation Sent Successfully!''))]\<rparr>))"
      by blast
    show ?thesis
      unfolding s by (auto simp: create_def onCreateError_def split: list.splits option.splits)
  qed
qed

lemma failure_answer:
  assumes "snd (sendReservation env db b) = Next err"
  shows "(\<exists>m. m \<noteq> [] \<and>
           body (snd (app env db b)) = [(''success'', JBool False), (''message'', JStr m)])
       \<and> (\<forall>err' :: 'a js_error_scheme.
            message err' = message err \<and> StatusCode err' = StatusCode err \<longrightarrow>
            snd (errorMiddleware err') = snd (app env db b))"
proof -
  have r: "snd (app env db b) = snd (errorMiddleware err)"
    using assms by (rule app_failure)
  have "or_string (message err) (js ''Internal Serve Error!'') \<noteq> []"
    by (rule or_string_not_Nil) (rule default_message_not_Nil)
  then show ?thesis
    by (simp add: r errorMiddleware_response)
qed

text \<open>
  Claim C4. Every failure is answered with a body of exactly the two properties
  \<^verbatim>\<open>success: false\<close> and \<^verbatim>\<open>message\<close>, and the answer depends on nothing of the error object
  but its message and status code (lemma \<open>failure_answer\<close>), so the stack trace is not
  in the answer. The text of the message, however, is the error's own: for the sample
  submission sent while the storage refuses the connection, the body of the answer
  has the two properties and its message is the text of the driver's error, which
  names the address of the storage. An internal identifier has crossed the boundary.
\<close>

theorem C4_storage_address_in_answer:
  "map fst (body (snd (app (sample_env (Some refused)) [] (posted john)))) =
     [''success'', ''message'']
   \<and> map_of (body (snd (app (sample_env (Some refused)) [] (posted john)))) ''success'' =
       Some (JBool False)
   \<and> map_of (body (snd (app (sample_env (Some refused)) [] (posted john)))) ''message'' =
       Some (JStr (message refused))
   \<and> message refused = js ''connect ECONNREFUSED 127.0.0.1:27017''"
  by (simp add: app_def sendReservation_john_fault errorMiddleware_response refused_def
      or_string_def js_def)

text \<open>
  Claim C5. The sample submission, sent while the storage refuses the connection:
  the answer has status 500, and its message is the text of the driver's error, with
  the address of the storage in it, not a generic text.
\<close>

theorem C5_fault_message_passed_on:
  "app (sample_env (Some refused)) [] (posted john) =
     ([], \<lparr>status = 500,
           body = [(''success'', JBool False),
                   (''message'', JStr (js ''connect ECONNREFUSED 127.0.0.1:27017''))]\<rparr>)"
  by (simp add: app_def sendReservation_john_fault errorMiddleware_response refused_def
      or_string_def or_number_def js_def)

text \<open>
  Claim C6. Two consecutive successful submissions of the same payload append two
  documents to the collection, each holding the values of the payload: the second
  submission is not recognised as a repetition of the first.
\<close>

theorem C6_no_deduplication:
  assumes "app env1 db b = (db1, r1)" and "map_of (body r1) ''success'' = Some (JBool True)"
      and "app env2 db1 b = (db2, r2)" and "map_of (body r2) ''success'' = Some (JBool True)"
  shows "\<exists>doc. db2 = db @ [doc, doc] \<and>
           b ''firstName'' = Some (firstName doc) \<and> b ''lastName'' = Some (lastName doc) \<and>
           b ''email'' = Some (email doc) \<and> b ''phone'' = Some (phone doc) \<and>
           b ''date'' = Some (date doc) \<and> b ''time'' = Some (time doc)"
proof -
  from app_success [OF assms(1,2)] obtain f l e p d t where
    1: "b ''firstName'' = Some f" "b ''lastName'' = Some l" "b ''email'' = Some e"
       "b ''phone'' = Some p" "b ''date'' = Some d" "b ''time'' = Some t"
       "db1 = db @ [\<lparr>firstName = f, lastName = l, email = e, phone = p, time = t, date = d\<rparr>]"
    by blast
  from app_success [OF assms(3,4)] obtain f' l' e' p' d' t' where
    2: "b ''firstName'' = Some f'" "b ''lastName'' = Some l'" "b ''email'' = Some e'"
       "b ''phone'' = Some p'" "b ''date'' = Some d'" "b ''time'' = Some t'"
       "db2 = db1 @ [\<lparr>firstName = f', lastName = l', email = e', phone = p', time = t', date = d'\<rparr>]"
    by blast
  let ?doc = "\<lparr>firstName = f, lastName = l, email = e, phone = p, time = t, date = d\<rparr>"
  from 1 2 have "db2 = db @ [?doc, ?doc]"
    by simp
  with 1 show ?thesis
    by (intro exI [of _ ?doc]) simp
qed

theorem C6_no_deduplication_witness:
  "app (sample_env None) [] (posted john) =
     ([john], \<lparr>status = 200,
               body = [(''success'', JBool True),
                       (''message'', JStr (js ''Reservation Sent Successfully!''))]\<rparr>) \<and>
   app (sample_env None) [john] (posted john) =
     ([john, john], \<lparr>status = 200,
               body = [(''success'', JBool True),
                       (''message'', JStr (js ''Reservation Sent Successfully!''))]\<rparr>) \<and>
   (\<exists>doc. [john, john] = [] @ [doc, doc] \<and> posted john ''phone'' = Some (phone doc))"
proof -
  have 1: "app (sample_env None) [] (posted john) =
     ([john], \<lparr>status = 200,
               body = [(''success'', JBool True),
                       (''message'', JStr (js ''Reservation Sent Successfully!''))]\<rparr>)"
    using app_john [of "[]"] by simp
  have 2: "app (sample_env None) [john] (posted john) =
     ([john, john], \<lparr>status = 200,
               body = [(''success'', JBool True),
                       (''message'', JStr (js ''Reservation Sent Successfully!''))]\<rparr>)"
    using app_john [of "[john]"] by simp
  from C6_no_deduplication [OF 1 _ 2] have
    "\<exists>doc. [john, john] = [] @ [doc, doc] \<and> posted john ''phone'' = Some (phone doc)"
    by auto
  with 1 2 show ?thesis by simp
qed

section \<open>Results for the confirmation view\<close>

lemma tick_counting:
  assumes "1 < c"
  shows "tick \<lparr>countdown = c, intervals = [i], timeoutId = i, path = p, navigations = n\<rparr> =
         \<lparr>countdown = c - 1, intervals = [i], timeoutId = i, path = p, navigations = n\<rparr>"
  using assms by (simp add: tick_def updater_def)

lemma tick_last:
  "tick \<lparr>countdown = 1, intervals = [i], timeoutId = i, path = p, navigations = n\<rparr> =
     \<lparr>countdown = 0, intervals = [], timeoutId = i, path = ''/'', navigations = Suc n\<rparr>"
  by (simp add: tick_def updater_def navigate_def clearInterval_def)

lemma tick_cleared:
  assumes "timeoutId s \<notin> set (intervals s)"
  shows "tick s = s"
  using assms by (simp add: tick_def)

lemma ticks_cleared:
  assumes "timeoutId s \<notin> set (intervals s)"
  shows "(tick ^^ n) s = s"
  using assms by (induction n) (simp_all add: tick_cleared)

lemma ticks_counting:
  assumes "k < 10"
  shows "(tick ^^ k) (mount i) =
         \<lparr>countdown = 10 - int k, intervals = [i], timeoutId = i, path = ''/success'',
          navigations = 0\<rparr>"
  using assms
proof (induction k)
  case 0
  show ?case by (simp add: mount_def)
next
  case (Suc k)
  then have "(tick ^^ k) (mount i) =
         \<lparr>countdown = 10 - int k, intervals = [i], timeoutId = i, path = ''/success'',
          navigations = 0\<rparr>"
    by simp
  moreover have "1 < 10 - int k"
    using Suc.prems by simp
  ultimately show ?case
    by (simp add: tick_counting)
qed

lemma ticks_ten:
  "(tick ^^ 10) (mount i) =
     \<lparr>countdown = 0, intervals = [], timeoutId = i, path = ''/'', navigations = 1\<rparr>"
proof -
  have "(tick ^^ 10) (mount i) = tick ((tick ^^ 9) (mount i))"
    by (simp add: numeral_eq_Suc)
  also have "(tick ^^ 9) (mount i) =
      \<lparr>countdown = 1, intervals = [i], timeoutId = i, path = ''/success'', navigations = 0\<rparr>"
    using ticks_counting [of 9 i] by simp
  finally show ?thesis
    by (simp add: tick_last)
qed

lemma ticks_beyond:
  assumes "10 \<le> k"
  shows "(tick ^^ k) (mount i) =
     \<lparr>countdown = 0, intervals = [], timeoutId = i, path = ''/'', navigations = 1\<rparr>"
proof -
  from assms obtain m where k: "k = m + 10"
    by (metis le_add_diff_inverse2)
  have "(tick ^^ k) (mount i) = (tick ^^ m) ((tick ^^ 10) (mount i))"
    unfolding k by (simp only: funpow_add o_apply)
  then show ?thesis
    by (simp add: ticks_ten ticks_cleared)
qed

text \<open>
  Claim C7. The view is mounted with the counter at 10. Each of the first ten ticks
  lowers the counter by one. No navigation has happened before the tenth tick, and
  from the tenth tick on exactly one has, to the home view: the tenth tick clears the
  interval, so that later ticks find nothing to run.
\<close>

theorem C7_countdown:
  "countdown (mount i) = 10
   \<and> (\<forall>k < 10. countdown ((tick ^^ Suc k) (mount i)) = countdown ((tick ^^ k) (mount i)) - 1)
   \<and> (\<forall>k. navigations ((tick ^^ k) (mount i)) = (if k < 10 then 0 else 1))
   \<and> (\<forall>k. path ((tick ^^ k) (mount i)) = (if k < 10 then ''/success'' else ''/''))"
proof (intro conjI allI impI)
  show "countdown (mount i) = 10"
    by (simp add: mount_def)
next
  fix k :: nat
  assume k: "k < 10"
  show "countdown ((tick ^^ Suc k) (mount i)) = countdown ((tick ^^ k) (mount i)) - 1"
  proof (cases "Suc k < 10")
    case True
    then show ?thesis
      using k by (simp only: ticks_counting) simp
  next
    case False
    with k have "Suc k = 10" "k = 9"
      by simp_all
    then show ?thesis
      using ticks_ten [of i] ticks_counting [of 9 i] by simp
  qed
next
  fix k :: nat
  show "navigations ((tick ^^ k) (mount i)) = (if k < 10 then 0 else 1)"
    by (cases "k < 10") (simp_all add: ticks_counting ticks_beyond)
next
  fix k :: nat
  show "path ((tick ^^ k) (mount i)) = (if k < 10 then ''/success'' else ''/'')"
    by (cases "k < 10") (simp_all add: ticks_counting ticks_beyond)
qed

theorem C7_countdown_witness:
  "countdown ((tick ^^ Suc 3) (mount 7)) = countdown ((tick ^^ 3) (mount 7)) - 1
   \<and> navigations ((tick ^^ 9) (mount 7)) = 0
   \<and> navigations ((tick ^^ 10) (mount 7)) = 1
   \<and> navigations ((tick ^^ 25) (mount 7)) = 1
   \<and> path ((tick ^^ 10) (mount 7)) = ''/''"
proof -
  note c = C7_countdown [of 7]
  from c have "\<forall>k < 10. countdown ((tick ^^ Suc k) (mount 7)) = countdown ((tick ^^ k) (mount 7)) - 1"
    by (rule conjunct1 [OF conjunct2])
  moreover have "(3::nat) < 10"
    by simp
  ultimately have 1: "countdown ((tick ^^ Suc 3) (mount 7)) = countdown ((tick ^^ 3) (mount 7)) - 1"
    by blast
  from c have n: "\<forall>k. navigations ((tick ^^ k) (mount 7)) = (if k < 10 then 0 else 1)"
    by (rule conjunct1 [OF conjunct2 [OF conjunct2]])
  from c have p: "\<forall>k. path ((tick ^^ k) (mount 7)) = (if k < 10 then ''/success'' else ''/'')"
    by (rule conjunct2 [OF conjunct2 [OF conjunct2]])
  from n have 2: "navigations ((tick ^^ 9) (mount 7)) = 0"
    and 3: "navigations ((tick ^^ 10) (mount 7)) = 1"
    and 4: "navigations ((tick ^^ 25) (mount 7)) = 1"
    by simp_all
  from p have 5: "path ((tick ^^ 10) (mount 7)) = ''/''"
    by simp
  from 1 2 3 4 5 show ?thesis
    by (intro conjI)
qed

lemma unmount_cleared: "timeoutId (unmount s) \<notin> set (intervals (unmount s))"
  by (simp add: unmount_def clearInterval_def)

lemma clickHome_cleared: "timeoutId (clickHome s) \<notin> set (intervals (clickHome s))"
  by (simp add: clickHome_def unmount_cleared)

text \<open>
  Claim C8. After the view is unmounted, and after the explicit navigation control is
  used, the interval is cleared: however many ticks follow, the state does not change,
  so no callback runs and no navigation is made. When the control is used before the
  countdown completes, the navigation it makes is the only one.
\<close>

theorem C8_no_timer_after_exit:
  "(tick ^^ n) (unmount s) = unmount s
   \<and> (tick ^^ n) (clickHome s) = clickHome s
   \<and> (\<forall>k < 10. navigations ((tick ^^ n) (clickHome ((tick ^^ k) (mount i)))) = 1)"
proof (intro conjI allI impI)
  show "(tick ^^ n) (unmount s) = unmount s"
    by (rule ticks_cleared) (rule unmount_cleared)
next
  show c: "(tick ^^ n) (clickHome s) = clickHome s" for s
    by (rule ticks_cleared) (rule clickHome_cleared)
  fix k :: nat
  assume "k < 10"
  then show "navigations ((tick ^^ n) (clickHome ((tick ^^ k) (mount i)))) = 1"
    by (simp only: c) (simp add: ticks_counting clickHome_def unmount_def clearInterval_def navigate_def)
qed

theorem C8_no_timer_after_exit_witness:
  "(tick ^^ 20) (unmount ((tick ^^ 3) (mount 7))) = unmount ((tick ^^ 3) (mount 7))
   \<and> navigations ((tick ^^ 20) (unmount ((tick ^^ 3) (mount 7)))) = 0
   \<and> navigations ((tick ^^ 20) (clickHome ((tick ^^ 3) (mount 7)))) = 1"
proof -
  have "(3::nat) < 10" by simp
  with C8_no_timer_after_exit [of 20 "(tick ^^ 3) (mount 7)" 7]
  have "(tick ^^ 20) (unmount ((tick ^^ 3) (mount 7))) = unmount ((tick ^^ 3) (mount 7))"
    and "navigations ((tick ^^ 20) (clickHome ((tick ^^ 3) (mount 7)))) = 1"
    by blast+
  moreover have "navigations (unmount ((tick ^^ 3) (mount 7))) = 0"
    by (simp add: ticks_counting unmount_def clearInterval_def)
  ultimately show ?thesis by simp
qed

section \<open>Results for the form client\<close>

lemma app_john_no_phone:
  "snd (app (sample_env None) [] (posted (john\<lparr>phone := []\<rparr>))) =
     \<lparr>status = 400,
      body = [(''success'', JBool False),
              (''message'', JStr (js ''Please fill full reservation form!''))]\<rparr>"
proof -
  have "sendReservation (sample_env None) [] (posted (john\<lparr>phone := []\<rparr>)) =
      ([], incomplete (sample_env None))"
    by (rule sendReservation_incomplete [of "''phone''"]) (simp_all add: posted_def)
  then show ?thesis
    by (simp add: app_def incomplete_def ErrorHandler_def errorMiddleware_response
        or_string_def or_number_def js_def)
qed

text \<open>
  Claim C9. When the request fails, the form shows one error notification: with the
  message of the server's answer when the answer has one (a non-empty string), and with
  the message of the request error when the answer has none or when no answer came;
  the six fields and the route stay as they were. When the request succeeds, the form
  shows one success notification with the message of the answer, all six fields are
  empty and the route is that of the confirmation view.
\<close>

theorem C9_form_client:
  "(map_of d ''message'' = Some (JStr m) \<and> m \<noteq> [] \<longrightarrow>
      handleReservation st (Failed (Some d) emsg) =
        st\<lparr>toasts := toasts st @ [Error_toast (JStr m)]\<rparr>)
   \<and> (map_of d ''message'' = None \<longrightarrow>
      handleReservation st (Failed (Some d) emsg) =
        st\<lparr>toasts := toasts st @ [Error_toast (JStr emsg)]\<rparr>)
   \<and> handleReservation st (Failed None emsg) =
        st\<lparr>toasts := toasts st @ [Error_toast (JStr emsg)]\<rparr>
   \<and> inputs (handleReservation st (Failed rdata emsg)) = inputs st
   \<and> page (handleReservation st (Failed rdata emsg)) = page st
   \<and> inputs (handleReservation st (Fulfilled data)) =
        \<lparr>firstName = [], lastName = [], email = [], phone = [], time = [], date = []\<rparr>
   \<and> toasts (handleReservation st (Fulfilled data)) =
        toasts st @ [Success_toast (map_of data ''message'')]
   \<and> page (handleReservation st (Fulfilled data)) = ''/success''"
  by (simp add: handleReservation_def or_json_def cleared_def)

theorem C9_form_client_witness:
  "handleReservation \<lparr>inputs = john\<lparr>phone := []\<rparr>, toasts = [], page = ''/''\<rparr>
     (axios_post (Some (snd (app (sample_env None) [] (posted (john\<lparr>phone := []\<rparr>)))))
        (js ''Request failed with status code 400'')) =
     \<lparr>inputs = john\<lparr>phone := []\<rparr>,
      toasts = [Error_toast (JStr (js ''Please fill full reservation form!''))],
      page = ''/''\<rparr>
   \<and> handleReservation \<lparr>inputs = john, toasts = [], page = ''/''\<rparr>
     (axios_post (Some (snd (app (sample_env None) [] (posted john)))) []) =
     \<lparr>inputs = cleared,
      toasts = [Success_toast (Some (JStr (js ''Reservation Sent Successfully!'')))],
      page = ''/success''\<rparr>"
proof -
  let ?d = "[(''success'', JBool False),
             (''message'', JStr (js ''Please fill full reservation form!''))]"
  let ?st = "\<lparr>inputs = john\<lparr>phone := []\<rparr>, toasts = [], page = ''/''\<rparr>"
  have m: "map_of ?d ''message'' = Some (JStr (js ''Please fill full reservation form!''))
      \<and> js ''Please fill full reservation form!'' \<noteq> []"
    by (simp add: js_Nil_iff)
  from C9_form_client [of ?d "js ''Please fill full reservation form!''" ?st
      "js ''Request failed with status code 400''"] m
  have "handleReservation ?st (Failed (Some ?d) (js ''Request failed with status code 400'')) =
      ?st\<lparr>toasts := toasts ?st @ [Error_toast (JStr (js ''Please fill full reservation form!''))]\<rparr>"
    by blast
  then have 1: "handleReservation ?st
     (axios_post (Some (snd (app (sample_env None) [] (posted (john\<lparr>phone := []\<rparr>)))))
        (js ''Request failed with status code 400'')) =
     \<lparr>inputs = john\<lparr>phone := []\<rparr>,
      toasts = [Error_toast (JStr (js ''Please fill full reservation form!''))],
      page = ''/''\<rparr>"
    by (simp add: app_john_no_phone axios_post_def)
  have 2: "handleReservation \<lparr>inputs = john, toasts = [], page = ''/''\<rparr>
     (axios_post (Some (snd (app (sample_env None) [] (posted john)))) []) =
     \<lparr>inputs = cleared,
      toasts = [Success_toast (Some (JStr (js ''Reservation Sent Successfully!'')))],
      page = ''/success''\<rparr>"
    by (simp add: app_john axios_post_def handleReservation_def)
  from 1 2 show ?thesis
    by (rule conjI)
qed

end
